theory Spec2Isabelle
  imports Main
begin

section \<open>The swarm registry of \<^verbatim>\<open>lib/swarm.js\<close>\<close>

text \<open>
  A \<^verbatim>\<open>Swarm\<close> object holds \<^verbatim>\<open>peers\<close> (a JavaScript object used as a dictionary
  from peer address to a peer object or \<^verbatim>\<open>null\<close>) and the two counters
  \<^verbatim>\<open>complete\<close> and \<^verbatim>\<open>incomplete\<close>.

  \<^item> The dictionary is an association list in the order in which \<^verbatim>\<open>for (... in this.peers)\<close>
    enumerates it. Peer addresses are \<^verbatim>\<open>ip:port\<close> composite strings, which are never
    array-index property names nor names inherited from \<^verbatim>\<open>Object.prototype\<close>, so the
    enumeration order is the order in which the keys were first assigned, and an absent
    key reads as \<^verbatim>\<open>undefined\<close>.
  \<^item> A slot holds \<open>Some r\<close> for a peer object and \<open>None\<close> for \<^verbatim>\<open>null\<close>.
  \<^item> The peer object's \<^verbatim>\<open>complete\<close> property is only ever tested for truthiness and only
    ever set to \<^verbatim>\<open>true\<close>; it is a \<open>bool\<close>, \<open>False\<close> while the property is unset.
  \<^item> The counters are JavaScript numbers that are incremented and decremented by one:
    \<open>int\<close>, since nothing keeps them from going below zero.
  \<^item> Field names are prefixed where two of the source's objects share a property name.
\<close>

type_synonym addr = string

record peer =
  ip :: string
  port :: nat
  peerId :: string
  peer_complete :: bool

record swarm =
  peers :: "(addr \<times> peer option) list"
  complete :: int
  incomplete :: int

text \<open>
  The \<^verbatim>\<open>params\<close> object of an announce. \<open>event\<close> is \<open>None\<close> when the property is
  absent; \<open>numwant\<close> is \<open>None\<close> when it is \<^verbatim>\<open>undefined\<close>.
\<close>

record params =
  addr :: addr
  params_ip :: string
  params_port :: nat
  peer_id :: string
  left :: int
  event :: "string option"
  numwant :: "int option"

text \<open>An entry of the peer list of a response: \<^verbatim>\<open>{'peer id': ..., ip: ..., port: ...}\<close>.\<close>

record peer_entry =
  entry_peer_id :: string
  entry_ip :: string
  entry_port :: nat

record response =
  res_complete :: int
  res_incomplete :: int
  res_peers :: "peer_entry list"

text \<open>\<^verbatim>\<open>this.emit(name, params.addr)\<close>: a notification to the server.\<close>

datatype emitted = Emit string addr

text \<open>
  One invocation of the callback \<^verbatim>\<open>cb\<close> of \<^verbatim>\<open>announce\<close>: \<^verbatim>\<open>cb(new Error(msg))\<close> or
  \<^verbatim>\<open>cb(null, response)\<close>.
\<close>

datatype cb_call = CbError string | CbResponse response

text \<open>
  How a handler \<^verbatim>\<open>_onAnnounce_*\<close> ends: it calls its continuation \<^verbatim>\<open>cb()\<close> (its last
  statement), it returns without calling it, or it throws.
\<close>

datatype handler_exit = CalledCb | Returned | Threw string

text \<open>
  What one call of \<^verbatim>\<open>announce\<close> does: the registry afterwards, the notifications
  emitted, the invocations of the caller's callback in order, and the exception that
  left \<^verbatim>\<open>announce\<close>, if any.
\<close>

record run =
  swarm_of :: swarm
  emits :: "emitted list"
  cb_calls :: "cb_call list"
  thrown :: "string option"

text \<open>\<^verbatim>\<open>new Swarm(infoHash, server)\<close>.\<close>

definition Swarm :: swarm where
  "Swarm = \<lparr>peers = [], complete = 0, incomplete = 0\<rparr>"

text \<open>
  \<^verbatim>\<open>var peer = self.peers[params.addr]\<close>. Every use of \<^verbatim>\<open>peer\<close> is a truthiness test or a
  property access behind one, so \<^verbatim>\<open>undefined\<close> (no such key) and \<^verbatim>\<open>null\<close> are both
  \<open>None\<close>.
\<close>

definition lookup_peer :: "(addr \<times> peer option) list \<Rightarrow> addr \<Rightarrow> peer option" where
  "lookup_peer ps a = (case map_of ps a of Some (Some r) \<Rightarrow> Some r | _ \<Rightarrow> None)"

text \<open>
  \<^verbatim>\<open>this.peers[a] = v\<close>: an existing key keeps its place in the enumeration order, a new
  key goes last.
\<close>

fun assign :: "(addr \<times> peer option) list \<Rightarrow> addr \<Rightarrow> peer option \<Rightarrow> (addr \<times> peer option) list" where
  "assign [] a v = [(a, v)]"
| "assign ((k, x) # ps) a v = (if k = a then (k, v) # ps else (k, x) # assign ps a v)"

text \<open>\<^verbatim>\<open>peers.length >= numwant\<close>; against \<^verbatim>\<open>undefined\<close> the comparison is false.\<close>

definition length_ge :: "nat \<Rightarrow> int option \<Rightarrow> bool" where
  "length_ge n nw = (case nw of None \<Rightarrow> False | Some w \<Rightarrow> int n \<ge> w)"

text \<open>The object literal that \<^verbatim>\<open>_getPeers\<close> pushes for a peer.\<close>

definition entry_of :: "peer \<Rightarrow> peer_entry" where
  "entry_of p = \<lparr>entry_peer_id = peerId p, entry_ip = ip p, entry_port = port p\<rparr>"

text \<open>The loop of \<^verbatim>\<open>_getPeers\<close> over the remaining keys, \<open>acc\<close> being the array \<^verbatim>\<open>peers\<close>.\<close>

fun getPeers_loop :: "int option \<Rightarrow> (addr \<times> peer option) list \<Rightarrow> peer_entry list \<Rightarrow> peer_entry list" where
  "getPeers_loop nw [] acc = acc"
| "getPeers_loop nw ((k, slot) # rest) acc =
     (if length_ge (length acc) nw then acc
      else (case slot of
              None \<Rightarrow> getPeers_loop nw rest acc
            | Some p \<Rightarrow> getPeers_loop nw rest (acc @ [entry_of p])))"

definition getPeers :: "swarm \<Rightarrow> int option \<Rightarrow> peer_entry list" where
  "getPeers s nw = getPeers_loop nw (peers s) []"

text \<open>
  \<^verbatim>\<open>_onAnnounce_update(params, peer, cb)\<close>. \<^verbatim>\<open>_onAnnounce_started\<close> calls it with no
  argument at all: that call is \<open>None\<close>, and in it \<^verbatim>\<open>peer\<close> is \<^verbatim>\<open>undefined\<close>. With no
  \<^verbatim>\<open>peer\<close> the handler evaluates \<^verbatim>\<open>start()\<close>; the file declares no \<^verbatim>\<open>start\<close>, so the
  call throws a ReferenceError.
\<close>

definition start_undefined :: string where
  "start_undefined = ''ReferenceError: start is not defined''"

definition onAnnounce_update :: "swarm \<Rightarrow> (params \<times> peer option) option \<Rightarrow> swarm \<times> emitted list \<times> handler_exit" where
  "onAnnounce_update s args =
     (case args of
        None \<Rightarrow> (s, [], Threw start_undefined)
      | Some (p, None) \<Rightarrow> (s, [], Threw start_undefined)
      | Some (p, Some r) \<Rightarrow> (s, [Emit ''update'' (addr p)], CalledCb))"

definition onAnnounce_started :: "swarm \<Rightarrow> params \<Rightarrow> peer option \<Rightarrow> swarm \<times> emitted list \<times> handler_exit" where
  "onAnnounce_started s p peer =
     (case peer of
        Some r \<Rightarrow> onAnnounce_update s None
      | None \<Rightarrow>
          (let s1 = (if left p = 0 then s\<lparr>complete := complete s + 1\<rparr>
                     else s\<lparr>incomplete := incomplete s + 1\<rparr>);
               s2 = s1\<lparr>peers := assign (peers s1) (addr p)
                      (Some \<lparr>ip = params_ip p, port = params_port p, peerId = peer_id p,
                             peer_complete = False\<rparr>)\<rparr>
           in (s2, [Emit ''start'' (addr p)], CalledCb)))"

definition onAnnounce_stopped :: "swarm \<Rightarrow> params \<Rightarrow> peer option \<Rightarrow> swarm \<times> emitted list \<times> handler_exit" where
  "onAnnounce_stopped s p peer =
     (case peer of
        None \<Rightarrow> (s, [], Returned)
      | Some r \<Rightarrow>
          (let s1 = (if peer_complete r then s\<lparr>complete := complete s - 1\<rparr>
                     else s\<lparr>incomplete := incomplete s - 1\<rparr>);
               s2 = s1\<lparr>peers := assign (peers s1) (addr p) None\<rparr>
           in (s2, [Emit ''stop'' (addr p)], CalledCb)))"

definition onAnnounce_completed :: "swarm \<Rightarrow> params \<Rightarrow> peer option \<Rightarrow> swarm \<times> emitted list \<times> handler_exit" where
  "onAnnounce_completed s p peer =
     (case peer of
        None \<Rightarrow> (s, [], Threw start_undefined)
      | Some r \<Rightarrow>
          (if peer_complete r then (s, [], Returned)
           else
             (let s1 = s\<lparr>complete := complete s + 1\<rparr>;
                  s2 = s1\<lparr>incomplete := incomplete s1 - 1\<rparr>;
                  s3 = s2\<lparr>peers := assign (peers s2) (addr p) (Some (r\<lparr>peer_complete := True\<rparr>))\<rparr>
              in (s3, [Emit ''complete'' (addr p)], CalledCb))))"

text \<open>
  \<^verbatim>\<open>if (!params.event || params.event === 'empty') params.event = 'update'\<close>: an absent
  event and the empty string are falsy.
\<close>

definition normalize_event :: "string option \<Rightarrow> string" where
  "normalize_event e =
     (case e of
        None \<Rightarrow> ''update''
      | Some n \<Rightarrow> (if n = [] \<or> n = ''empty'' then ''update'' else n))"

text \<open>
  \<^verbatim>\<open>self['_onAnnounce_' + params.event]\<close>: the prototype has exactly four properties
  whose names start with \<^verbatim>\<open>_onAnnounce_\<close>.
\<close>

definition handler :: "string \<Rightarrow> (swarm \<Rightarrow> params \<Rightarrow> peer option \<Rightarrow> swarm \<times> emitted list \<times> handler_exit) option" where
  "handler n =
     (if n = ''started'' then Some onAnnounce_started
      else if n = ''stopped'' then Some onAnnounce_stopped
      else if n = ''completed'' then Some onAnnounce_completed
      else if n = ''update'' then Some (\<lambda>s p peer. onAnnounce_update s (Some (p, peer)))
      else None)"

text \<open>
  The first statement of the continuation that \<^verbatim>\<open>announce\<close> passes to the handler:
  \<^verbatim>\<open>if (params.left === 0 && peer) peer.complete = true\<close>. Here \<^verbatim>\<open>peer\<close> is the variable
  of \<^verbatim>\<open>announce\<close>, read from the dictionary before the handler ran (the handlers assign
  only their own parameter). When it is an object, that object is still the one in the
  slot of \<^verbatim>\<open>params.addr\<close>, unless \<^verbatim>\<open>_onAnnounce_stopped\<close> has just put \<^verbatim>\<open>null\<close> there:
  then the write goes to an object the registry no longer holds.
\<close>

definition mark_complete :: "swarm \<Rightarrow> params \<Rightarrow> peer option \<Rightarrow> swarm" where
  "mark_complete s p peer =
     (if left p = 0 \<and> peer \<noteq> None then
        (case lookup_peer (peers s) (addr p) of
           None \<Rightarrow> s
         | Some r \<Rightarrow> s\<lparr>peers := assign (peers s) (addr p) (Some (r\<lparr>peer_complete := True\<rparr>))\<rparr>)
      else s)"

definition announce :: "swarm \<Rightarrow> params \<Rightarrow> run" where
  "announce s p =
     (let peer = lookup_peer (peers s) (addr p) in
      case handler (normalize_event (event p)) of
        None \<Rightarrow> \<lparr>swarm_of = s, emits = [], cb_calls = [CbError ''invalid event''], thrown = None\<rparr>
      | Some fn \<Rightarrow>
          (case fn s p peer of
             (s1, es, CalledCb) \<Rightarrow>
               (let s2 = mark_complete s1 p peer
                in \<lparr>swarm_of = s2, emits = es,
                     cb_calls = [CbResponse \<lparr>res_complete = complete s2,
                                             res_incomplete = incomplete s2,
                                             res_peers = getPeers s2 (numwant p)\<rparr>],
                     thrown = None\<rparr>)
           | (s1, es, Returned) \<Rightarrow> \<lparr>swarm_of = s1, emits = es, cb_calls = [], thrown = None\<rparr>
           | (s1, es, Threw e) \<Rightarrow> \<lparr>swarm_of = s1, emits = es, cb_calls = [], thrown = Some e\<rparr>))"

text \<open>
  A sequence of announce calls on one registry. An exception leaves the call, not the
  registry: the next call finds the state the failed one left.
\<close>

fun announces :: "swarm \<Rightarrow> params list \<Rightarrow> swarm" where
  "announces s [] = s"
| "announces s (p # ps) = announces (swarm_of (announce s p)) ps"

text \<open>\<^verbatim>\<open>scrape(infoHash, params, cb)\<close> calls \<^verbatim>\<open>cb(null, {complete, incomplete})\<close>.\<close>

record scrape_result =
  scrape_complete :: int
  scrape_incomplete :: int

definition scrape :: "swarm \<Rightarrow> 'i \<Rightarrow> 'p \<Rightarrow> swarm \<times> scrape_result" where
  "scrape s infoHash ps = (s, \<lparr>scrape_complete = complete s, scrape_incomplete = incomplete s\<rparr>)"

text \<open>
  The peer objects of the non-\<^verbatim>\<open>null\<close> slots, in enumeration order: the entries that
  are not tombstoned.
\<close>

fun surviving :: "(addr \<times> peer option) list \<Rightarrow> peer list" where
  "surviving [] = []"
| "surviving ((k, None) # ps) = surviving ps"
| "surviving ((k, Some r) # ps) = r # surviving ps"

text \<open>The two invariants the registry is meant to keep, as predicates on a state.\<close>

definition sum_matches :: "swarm \<Rightarrow> bool" where
  "sum_matches s = (complete s + incomplete s = int (length (surviving (peers s))))"

definition counts_match_flags :: "swarm \<Rightarrow> bool" where
  "counts_match_flags s =
     (complete s = int (length (filter peer_complete (surviving (peers s)))) \<and>
      incomplete s = int (length (filter (\<lambda>r. \<not> peer_complete r) (surviving (peers s)))))"

text \<open>
  Concrete announces for the examples: the peer at \<open>h\<close>, port 6881, sending event \<open>e\<close>
  with \<open>l\<close> bytes left, and the peer object that \<^verbatim>\<open>started\<close> creates for it.
\<close>

definition example_params :: "string \<Rightarrow> string \<Rightarrow> int \<Rightarrow> params" where
  "example_params h e l =
     \<lparr>addr = h @ '':6881'', params_ip = h, params_port = 6881, peer_id = ''-WW0001-'' @ h,
      left = l, event = Some e, numwant = Some 50\<rparr>"

definition example_peer :: "string \<Rightarrow> bool \<Rightarrow> peer" where
  "example_peer h c = \<lparr>ip = h, port = 6881, peerId = ''-WW0001-'' @ h, peer_complete = c\<rparr>"

section \<open>The HTTP tracker client of \<^verbatim>\<open>lib/http-tracker.js\<close>\<close>

text \<open>
  The events the tracker emits on its client: \<^verbatim>\<open>update\<close> with \<^verbatim>\<open>{announce, complete,
  incomplete}\<close>, \<^verbatim>\<open>peer\<close> with an address string, \<^verbatim>\<open>warning\<close> with an error (its message)
  and \<^verbatim>\<open>scrape\<close> with \<^verbatim>\<open>{announce, infoHash, complete, incomplete, downloaded}\<close>, the
  fields in this order. A number read from a decoded response is \<open>None\<close> when the key is
  absent.
\<close>

datatype client_event =
    Update string "int option" "int option"
  | Peer string
  | Warning string
  | Scrape string string "int option" "int option" "int option"

text \<open>
  The fields of an \<^verbatim>\<open>HTTPTracker\<close> that the response handlers read or write:
  \<^verbatim>\<open>_opts.interval\<close>, \<^verbatim>\<open>_announceUrl\<close>, \<^verbatim>\<open>_intervalMs\<close>, the period of the live timer
  behind \<^verbatim>\<open>_interval\<close> (\<open>None\<close> when no timer runs) and \<^verbatim>\<open>_trackerId\<close>.
\<close>

record tracker =
  opts_interval :: "int option"
  announceUrl :: string
  intervalMs :: int
  interval_timer :: "int option"
  trackerId :: "string option"

text \<open>
  A decoded announce response. \<^verbatim>\<open>peers\<close> and \<^verbatim>\<open>peers6\<close> are a Buffer (compact form), an
  array of \<^verbatim>\<open>{ip, port}\<close> objects, or anything else, which the handler skips.
  \<^verbatim>\<open>tracker id\<close> is a Buffer when present, and a Buffer is truthy.
\<close>

record verbose_peer =
  vp_ip :: string
  vp_port :: nat

datatype peers_field = NoPeers | CompactPeers string | PeerList "verbose_peer list"

record announce_data =
  d_interval :: "int option"
  d_min_interval :: "int option"
  d_tracker_id :: "string option"
  d_complete :: "int option"
  d_incomplete :: "int option"
  d_peers :: peers_field
  d_peers6 :: peers_field

text \<open>Truthiness of a number that may be absent: \<^verbatim>\<open>undefined\<close> and \<open>0\<close> are falsy.\<close>

definition truthy :: "int option \<Rightarrow> bool" where
  "truthy v = (case v of None \<Rightarrow> False | Some n \<Rightarrow> n \<noteq> 0)"

text \<open>
  \<^verbatim>\<open>setInterval(intervalMs)\<close>: clear the timer, store the period, and start a new timer
  when the period is not zero.
\<close>

definition setInterval :: "tracker \<Rightarrow> int \<Rightarrow> tracker" where
  "setInterval t ms =
     (let t1 = t\<lparr>interval_timer := None\<rparr>;
          t2 = t1\<lparr>intervalMs := ms\<rparr>
      in if ms \<noteq> 0 then t2\<lparr>interval_timer := Some ms\<rparr> else t2)"

text \<open>The decimal digits that string concatenation gives a port number.\<close>

fun decimal :: "nat \<Rightarrow> string" where
  "decimal n =
     (if n < 10 then [''0123456789'' ! n]
      else decimal (n div 10) @ [''0123456789'' ! (n mod 10)])"

text \<open>
  The \<^verbatim>\<open>ip\<close> of a verbose \<^verbatim>\<open>peers6\<close> entry: kept when it starts with \<^verbatim>\<open>[\<close> or holds no
  \<^verbatim>\<open>:\<close>, wrapped in brackets otherwise.
\<close>

definition bracketed :: "string \<Rightarrow> string" where
  "bracketed a =
     (if (a \<noteq> [] \<and> hd a = CHR ''['') \<or> CHR '':'' \<notin> set a then a else ''['' @ a @ '']'')"

text \<open>
  \<^verbatim>\<open>_onAnnounceResponse(data)\<close>. The decoders \<^verbatim>\<open>compact2string.multi\<close> and
  \<^verbatim>\<open>compact2string.multi6\<close> belong to another package: they are the parameters \<open>multi\<close>
  and \<open>multi6\<close>, returning \<open>Inl\<close> of the error they throw or \<open>Inr\<close> of the addresses.
  The result is the tracker afterwards and the events emitted, in order.
\<close>

definition onAnnounceResponse ::
  "(string \<Rightarrow> string + string list) \<Rightarrow> (string \<Rightarrow> string + string list) \<Rightarrow> tracker
     \<Rightarrow> announce_data \<Rightarrow> tracker \<times> client_event list" where
  "onAnnounceResponse multi multi6 t d =
     (let interval = (if truthy (d_interval d) then d_interval d else d_min_interval d);
          t1 = (case interval of
                  None \<Rightarrow> t
                | Some n \<Rightarrow>
                    (if n \<noteq> 0 \<and> \<not> truthy (opts_interval t) \<and> intervalMs t \<noteq> 0
                     then setInterval t (n * 1000) else t));
          t2 = (case d_tracker_id d of None \<Rightarrow> t1 | Some i \<Rightarrow> t1\<lparr>trackerId := Some i\<rparr>);
          es = [Update (announceUrl t) (d_complete d) (d_incomplete d)];
          v4 = (case d_peers d of
                  CompactPeers b \<Rightarrow>
                    (case multi b of Inl err \<Rightarrow> Inl err | Inr addrs \<Rightarrow> Inr (map Peer addrs))
                | PeerList l \<Rightarrow> Inr (map (\<lambda>p. Peer (vp_ip p @ '':'' @ decimal (vp_port p))) l)
                | NoPeers \<Rightarrow> Inr [])
      in case v4 of
           Inl err \<Rightarrow> (t2, es @ [Warning err])
         | Inr ps \<Rightarrow>
             (case d_peers6 d of
                CompactPeers b \<Rightarrow>
                  (case multi6 b of
                     Inl err \<Rightarrow> (t2, es @ ps @ [Warning err])
                   | Inr addrs \<Rightarrow> (t2, es @ ps @ map Peer addrs))
              | PeerList l \<Rightarrow>
                  (t2, es @ ps @
                     map (\<lambda>p. Peer (bracketed (vp_ip p) @ '':'' @ decimal (vp_port p))) l)
              | NoPeers \<Rightarrow> (t2, es @ ps)))"

text \<open>
  A decoded scrape response: \<^verbatim>\<open>files\<close> and \<^verbatim>\<open>host\<close> are absent (\<open>None\<close>) or a dictionary
  from info hash to \<^verbatim>\<open>{complete, incomplete, downloaded}\<close>, one pair per key, in
  \<^verbatim>\<open>Object.keys\<close> order. A dictionary is an object, and an object is truthy even when it
  has no key.
\<close>

record file_stats =
  st_complete :: "int option"
  st_incomplete :: "int option"
  st_downloaded :: "int option"

record scrape_data =
  files :: "(string \<times> file_stats) list option"
  host :: "(string \<times> file_stats) list option"

text \<open>
  Modelled from the spec: \<^verbatim>\<open>common.binaryToHex\<close> of \<^verbatim>\<open>lib/common.js\<close>, which is not among
  the sources; the spec calls its result the hex-encoded info hash. Two lower-case
  hexadecimal digits for every byte.
\<close>

definition hex_digit :: "nat \<Rightarrow> char" where
  "hex_digit n = ''0123456789abcdef'' ! n"

definition binaryToHex :: "string \<Rightarrow> string" where
  "binaryToHex s =
     concat (map (\<lambda>c. [hex_digit ((of_char c :: nat) div 16), hex_digit ((of_char c :: nat) mod 16)]) s)"

text \<open>\<^verbatim>\<open>data = data.files || data.host || {}\<close>.\<close>

definition scrape_mapping :: "scrape_data \<Rightarrow> (string \<times> file_stats) list" where
  "scrape_mapping d =
     (case files d of
        Some f \<Rightarrow> f
      | None \<Rightarrow> (case host d of Some h \<Rightarrow> h | None \<Rightarrow> []))"

text \<open>
  \<^verbatim>\<open>_onScrapeResponse(data)\<close>: the events emitted, in order. \<^verbatim>\<open>keys.forEach\<close> visits the
  keys of the dictionary and reads \<^verbatim>\<open>data[infoHash]\<close> for each, that is, every pair.
\<close>

definition onScrapeResponse :: "tracker \<Rightarrow> scrape_data \<Rightarrow> client_event list" where
  "onScrapeResponse t d =
     (let dat = scrape_mapping d;
          keys = map fst dat
      in if length keys = 0 then [Warning ''invalid scrape response'']
         else map (\<lambda>(infoHash, response).
                Scrape (announceUrl t) (binaryToHex infoHash) (st_complete response)
                  (st_incomplete response) (st_downloaded response)) dat)"

text \<open>
  The wording of the specification for the scrape handler: a mapping is populated when
  it is present and not empty; the warning is due when neither \<^verbatim>\<open>files\<close> nor \<^verbatim>\<open>host\<close> is
  populated, and otherwise one scrape event is due for each key of the mapping in use
  (\<^verbatim>\<open>files\<close> when present, else \<^verbatim>\<open>host\<close>).
\<close>

definition populated :: "(string \<times> file_stats) list option \<Rightarrow> bool" where
  "populated m = (case m of None \<Rightarrow> False | Some kvs \<Rightarrow> kvs \<noteq> [])"

definition specified_scrape_events :: "tracker \<Rightarrow> scrape_data \<Rightarrow> client_event list" where
  "specified_scrape_events t d =
     (if \<not> populated (files d) \<and> \<not> populated (host d) then [Warning ''invalid scrape response'']
      else map (\<lambda>(k, r). Scrape (announceUrl t) (binaryToHex k) (st_complete r) (st_incomplete r)
                  (st_downloaded r))
             (case files d of Some f \<Rightarrow> f | None \<Rightarrow> (case host d of Some h \<Rightarrow> h | None \<Rightarrow> [])))"

text \<open>Concrete values for the examples.\<close>

definition example_tracker :: tracker where
  "example_tracker =
     \<lparr>opts_interval = None, announceUrl = ''http://tracker.example/announce'',
      intervalMs = 1800000, interval_timer = None, trackerId = None\<rparr>"

definition example_stats :: file_stats where
  "example_stats = \<lparr>st_complete = Some 3, st_incomplete = Some 5, st_downloaded = Some 10\<rparr>"

text \<open>A decoder that rejects a buffer whose length is not a multiple of six.\<close>

definition example_multi :: "string \<Rightarrow> string + string list" where
  "example_multi b = (if length b mod 6 = 0 then Inr [] else Inl ''invalid compact peers'')"

text \<open>
  An announce response whose compact \<^verbatim>\<open>peers\<close> has five bytes and whose \<^verbatim>\<open>peers6\<close> lists
  one peer; a scrape response whose \<^verbatim>\<open>files\<close> is an empty dictionary while \<^verbatim>\<open>host\<close> has
  an entry.
\<close>

definition example_announce_data :: announce_data where
  "example_announce_data =
     \<lparr>d_interval = Some 1800, d_min_interval = None, d_tracker_id = Some ''t1'',
      d_complete = Some 1, d_incomplete = Some 2, d_peers = CompactPeers ''abcde'',
      d_peers6 = PeerList [\<lparr>vp_ip = ''::1'', vp_port = 6881\<rparr>]\<rparr>"

definition example_info_hash :: string where
  "example_info_hash = ''aaaaaaaaaaaaaaaaaaaa''"

definition empty_files_scrape :: scrape_data where
  "empty_files_scrape = \<lparr>files = Some [], host = Some [(example_info_hash, example_stats)]\<rparr>"

section \<open>Evaluation rules\<close>

lemmas swarm_eval = announce_def example_params_def example_peer_def Swarm_def handler_def
  normalize_event_def lookup_peer_def onAnnounce_started_def onAnnounce_stopped_def
  onAnnounce_completed_def onAnnounce_update_def mark_complete_def getPeers_def length_ge_def
  entry_of_def start_undefined_def Let_def

section \<open>The peer list\<close>

lemma getPeers_loop_capped:
  "getPeers_loop (Some (int n)) ps acc = acc @ take (n - length acc) (map entry_of (surviving ps))"
proof (induction ps arbitrary: acc)
  case Nil
  show ?case by simp
next
  case (Cons kv ps)
  obtain k slot where kv: "kv = (k, slot)" by (cases kv)
  show ?case
  proof (cases "n \<le> length acc")
    case True
    then show ?thesis by (simp add: kv length_ge_def)
  next
    case False
    then have lt: "length acc < n" by simp
    show ?thesis
    proof (cases slot)
      case None
      with lt show ?thesis by (simp add: kv length_ge_def Cons.IH)
    next
      case (Some r)
      from lt have "n - length acc = Suc (n - Suc (length acc))" by simp
      with lt Some show ?thesis by (simp add: kv length_ge_def Cons.IH)
    qed
  qed
qed

lemma getPeers_loop_uncapped:
  "getPeers_loop None ps acc = acc @ map entry_of (surviving ps)"
proof (induction ps arbitrary: acc)
  case Nil
  show ?case by simp
next
  case (Cons kv ps)
  obtain k slot where kv: "kv = (k, slot)" by (cases kv)
  show ?case by (cases slot) (simp_all add: kv length_ge_def Cons.IH)
qed

text \<open>
  The surviving peers are the slots that hold an object, in the order of the list, and
  an entry of the result is the object literal of the source, field by field.
\<close>

lemma surviving_map_filter: "surviving ps = List.map_filter snd ps"
proof (induction ps)
  case Nil
  show ?case by (simp add: map_filter_simps)
next
  case (Cons kv ps)
  obtain k slot where kv: "kv = (k, slot)" by (cases kv)
  with Cons.IH show ?case by (cases slot) (simp_all add: map_filter_simps)
qed

lemma entry_of_literal:
  "entry_of = (\<lambda>r. \<lparr>entry_peer_id = peerId r, entry_ip = ip r, entry_port = port r\<rparr>)"
  by (rule ext) (simp add: entry_of_def)

text \<open>
  A negative \<^verbatim>\<open>numwant\<close> stops the loop at its first test.
\<close>

lemma getPeers_negative: "w < 0 \<Longrightarrow> getPeers s (Some w) = []"
  by (cases "peers s") (auto simp: getPeers_def length_ge_def)

text \<open>
  Assignment keeps the order of the keys already there and puts a new key last, so the
  enumeration order of the dictionary is the order of first insertion.
\<close>

lemma assign_keys:
  "map fst (assign ps a v) = (if a \<in> set (map fst ps) then map fst ps else map fst ps @ [a])"
  by (induction ps) force+

lemma assign_keys_any: "map fst (assign ps a v) = map fst (assign ps a None)"
  by (simp add: assign_keys)

lemma assign_keys_twice: "map fst (assign (assign ps a v) a w) = map fst (assign ps a None)"
  by (simp add: assign_keys)

lemma lookup_peer_key: "lookup_peer ps a = Some r \<Longrightarrow> a \<in> set (map fst ps)"
proof -
  assume "lookup_peer ps a = Some r"
  then have "map_of ps a = Some (Some r)"
    by (simp add: lookup_peer_def split: option.splits)
  then have "(a, Some r) \<in> set ps" by (rule map_of_SomeD)
  then show ?thesis by force
qed

lemma mark_complete_keys:
  "map fst (peers (mark_complete s p peer)) = map fst (peers s) \<or>
   map fst (peers (mark_complete s p peer)) = map fst (assign (peers s) (addr p) None)"
  by (simp add: mark_complete_def assign_keys split: option.splits)

lemma handler_keys:
  assumes "handler n = Some fn" and "fn s p peer = (s1, es, x)"
  shows "map fst (peers s1) = map fst (peers s) \<or>
         map fst (peers s1) = map fst (assign (peers s) (addr p) None)"
proof -
  from assms(1) consider
      "fn = onAnnounce_started" | "fn = onAnnounce_stopped" | "fn = onAnnounce_completed"
    | "fn = (\<lambda>s p peer. onAnnounce_update s (Some (p, peer)))"
    by (auto simp: handler_def split: if_splits)
  then show ?thesis
  proof cases
    case 1
    with assms(2) show ?thesis
      by (cases peer)
        (auto simp: onAnnounce_started_def onAnnounce_update_def Let_def assign_keys_any [of _ _ "Some _"]
          split: if_splits)
  next
    case 2
    with assms(2) show ?thesis
      by (cases peer) (auto simp: onAnnounce_stopped_def Let_def split: if_splits)
  next
    case 3
    with assms(2) show ?thesis
      by (cases peer)
        (auto simp: onAnnounce_completed_def Let_def assign_keys_any [of _ _ "Some _"] split: if_splits)
  next
    case 4
    with assms(2) show ?thesis
      by (cases peer) (auto simp: onAnnounce_update_def)
  qed
qed

lemma announce_keys:
  "map fst (peers (swarm_of (announce s p))) = map fst (peers s) \<or>
   map fst (peers (swarm_of (announce s p))) = map fst (peers s) @ [addr p]"
proof (cases "handler (normalize_event (event p))")
  case None
  then show ?thesis by (simp add: announce_def)
next
  case (Some fn)
  obtain s1 es x where r: "fn s p (lookup_peer (peers s) (addr p)) = (s1, es, x)"
    by (cases "fn s p (lookup_peer (peers s) (addr p))")
  have k1: "map fst (peers s1) = map fst (peers s) \<or>
            map fst (peers s1) = map fst (assign (peers s) (addr p) None)"
    using handler_keys [OF Some r] .
  have k2: "map fst (peers (mark_complete s1 p (lookup_peer (peers s) (addr p)))) = map fst (peers s1)"
    by (auto simp: mark_complete_def assign_keys dest: lookup_peer_key split: option.splits)
  have "map fst (peers (swarm_of (announce s p))) = map fst (peers s1)"
    using Some r k2 by (cases x) (simp_all add: announce_def Let_def)
  with k1 show ?thesis by (auto simp: assign_keys split: if_splits)
qed

section \<open>The sum of the counters\<close>

lemma surviving_assign_new:
  "lookup_peer ps a = None \<Longrightarrow>
     length (surviving (assign ps a (Some r))) = Suc (length (surviving ps))"
proof (induction ps)
  case Nil
  show ?case by simp
next
  case (Cons kv ps)
  obtain k slot where kv: "kv = (k, slot)" by (cases kv)
  show ?case
  proof (cases "k = a")
    case True
    with Cons.prems kv have "slot = None" by (cases slot) (simp_all add: lookup_peer_def)
    with True kv show ?thesis by simp
  next
    case False
    with Cons.prems kv have "lookup_peer ps a = None" by (simp add: lookup_peer_def)
    with Cons.IH False kv show ?thesis by (cases slot) simp_all
  qed
qed

lemma surviving_assign_live:
  "lookup_peer ps a = Some r0 \<Longrightarrow>
     length (surviving (assign ps a (Some r))) = length (surviving ps)"
proof (induction ps)
  case Nil
  then show ?case by (simp add: lookup_peer_def)
next
  case (Cons kv ps)
  obtain k slot where kv: "kv = (k, slot)" by (cases kv)
  show ?case
  proof (cases "k = a")
    case True
    with Cons.prems kv have "slot = Some r0" by (cases slot) (simp_all add: lookup_peer_def)
    with True kv show ?thesis by simp
  next
    case False
    with Cons.prems kv have "lookup_peer ps a = Some r0" by (simp add: lookup_peer_def)
    with Cons.IH False kv show ?thesis by (cases slot) simp_all
  qed
qed

lemma surviving_assign_null:
  "lookup_peer ps a = Some r0 \<Longrightarrow>
     Suc (length (surviving (assign ps a None))) = length (surviving ps)"
proof (induction ps)
  case Nil
  then show ?case by (simp add: lookup_peer_def)
next
  case (Cons kv ps)
  obtain k slot where kv: "kv = (k, slot)" by (cases kv)
  show ?case
  proof (cases "k = a")
    case True
    with Cons.prems kv have "slot = Some r0" by (cases slot) (simp_all add: lookup_peer_def)
    with True kv show ?thesis by simp
  next
    case False
    with Cons.prems kv have "lookup_peer ps a = Some r0" by (simp add: lookup_peer_def)
    with Cons.IH False kv show ?thesis by (cases slot) simp_all
  qed
qed

lemma mark_complete_counts:
  "complete (mark_complete s p peer) = complete s \<and>
   incomplete (mark_complete s p peer) = incomplete s \<and>
   length (surviving (peers (mark_complete s p peer))) = length (surviving (peers s))"
  by (simp add: mark_complete_def surviving_assign_live split: option.splits)

lemma started_sum:
  "sum_matches s \<Longrightarrow> onAnnounce_started s p (lookup_peer (peers s) (addr p)) = (s1, es, x)
     \<Longrightarrow> sum_matches s1"
  by (cases "lookup_peer (peers s) (addr p)")
    (auto simp: sum_matches_def onAnnounce_started_def onAnnounce_update_def Let_def
       surviving_assign_new split: if_splits)

lemma stopped_sum:
  "sum_matches s \<Longrightarrow> onAnnounce_stopped s p (lookup_peer (peers s) (addr p)) = (s1, es, x)
     \<Longrightarrow> sum_matches s1"
  using surviving_assign_null [of "peers s" "addr p"]
  by (cases "lookup_peer (peers s) (addr p)")
    (auto simp: sum_matches_def onAnnounce_stopped_def Let_def split: if_splits)

lemma completed_sum:
  "sum_matches s \<Longrightarrow> onAnnounce_completed s p (lookup_peer (peers s) (addr p)) = (s1, es, x)
     \<Longrightarrow> sum_matches s1"
  by (cases "lookup_peer (peers s) (addr p)")
    (auto simp: sum_matches_def onAnnounce_completed_def Let_def surviving_assign_live
       split: if_splits)

lemma update_sum:
  "sum_matches s \<Longrightarrow> onAnnounce_update s args = (s1, es, x) \<Longrightarrow> sum_matches s1"
  by (auto simp: onAnnounce_update_def split: option.splits prod.splits)

lemma handler_sum:
  assumes "sum_matches s" and "handler n = Some fn"
    and "fn s p (lookup_peer (peers s) (addr p)) = (s1, es, x)"
  shows "sum_matches s1"
  using assms started_sum [OF assms(1)] stopped_sum [OF assms(1)] completed_sum [OF assms(1)]
    update_sum [OF assms(1)]
  by (auto simp: handler_def split: if_splits)

text \<open>
  Every announce, whatever its event and however it ends, keeps the sum of the two
  counters equal to the number of entries that are not tombstoned.
\<close>

lemma announce_sum:
  assumes "sum_matches s"
  shows "sum_matches (swarm_of (announce s p))"
proof (cases "handler (normalize_event (event p))")
  case None
  with assms show ?thesis by (simp add: announce_def)
next
  case (Some fn)
  obtain s1 es x where r: "fn s p (lookup_peer (peers s) (addr p)) = (s1, es, x)"
    by (cases "fn s p (lookup_peer (peers s) (addr p))")
  from handler_sum [OF assms Some r] have s1: "sum_matches s1" .
  show ?thesis
  proof (cases x)
    case CalledCb
    with Some r s1 show ?thesis
      by (simp add: announce_def Let_def sum_matches_def mark_complete_counts)
  next
    case Returned
    with Some r s1 show ?thesis by (simp add: announce_def)
  next
    case (Threw e)
    with Some r s1 show ?thesis by (simp add: announce_def)
  qed
qed

lemma announces_sum: "sum_matches s \<Longrightarrow> sum_matches (announces s ps)"
  by (induction ps arbitrary: s) (simp_all add: announce_sum)

lemma Swarm_sum: "sum_matches (announces Swarm ps)"
  by (rule announces_sum) (simp add: sum_matches_def Swarm_def)

section \<open>How an announce ends\<close>

text \<open>
  The callback is invoked at most once, and a response it receives carries the counters
  and the peer list of the registry as the call leaves it. The branches for an event
  that does not fit the record of the address end without the callback: by a plain
  return, or by the exception of the undefined \<^verbatim>\<open>start\<close>.
\<close>

lemma announce_calls_back_at_most_once: "length (cb_calls (announce s p)) \<le> 1"
  by (simp add: announce_def Let_def split: option.splits prod.splits handler_exit.splits)

lemma announce_response_is_current:
  assumes "cb_calls (announce s p) = [CbResponse r]"
  shows "r = \<lparr>res_complete = complete (swarm_of (announce s p)),
              res_incomplete = incomplete (swarm_of (announce s p)),
              res_peers = getPeers (swarm_of (announce s p)) (numwant p)\<rparr>"
  using assms
  by (auto simp: announce_def Let_def split: option.splits prod.splits handler_exit.splits)

lemma started_on_live_record_throws:
  assumes "normalize_event (event p) = ''started''" and "lookup_peer (peers s) (addr p) = Some r"
  shows "announce s p = \<lparr>swarm_of = s, emits = [], cb_calls = [], thrown = Some start_undefined\<rparr>"
  using assms by (simp add: announce_def handler_def onAnnounce_started_def onAnnounce_update_def)

lemma stopped_without_record_returns:
  assumes "normalize_event (event p) = ''stopped''" and "lookup_peer (peers s) (addr p) = None"
  shows "announce s p = \<lparr>swarm_of = s, emits = [], cb_calls = [], thrown = None\<rparr>"
  using assms by (simp add: announce_def handler_def onAnnounce_stopped_def)

lemma completed_without_record_throws:
  assumes "normalize_event (event p) = ''completed''" and "lookup_peer (peers s) (addr p) = None"
  shows "announce s p = \<lparr>swarm_of = s, emits = [], cb_calls = [], thrown = Some start_undefined\<rparr>"
  using assms by (simp add: announce_def handler_def onAnnounce_completed_def)

lemma completed_twice_returns:
  assumes "normalize_event (event p) = ''completed''" and "lookup_peer (peers s) (addr p) = Some r"
    and "peer_complete r"
  shows "announce s p = \<lparr>swarm_of = s, emits = [], cb_calls = [], thrown = None\<rparr>"
  using assms by (simp add: announce_def handler_def onAnnounce_completed_def)

lemma update_without_record_throws:
  assumes "normalize_event (event p) = ''update''" and "lookup_peer (peers s) (addr p) = None"
  shows "announce s p = \<lparr>swarm_of = s, emits = [], cb_calls = [], thrown = Some start_undefined\<rparr>"
  using assms by (simp add: announce_def handler_def onAnnounce_update_def)

lemma map_of_assign_same: "map_of (assign ps a v) a = Some v"
  by (induction ps) auto

lemma lookup_assign_same: "lookup_peer (assign ps a v) a = v"
  by (cases v) (simp_all add: lookup_peer_def map_of_assign_same)

lemma started_creates_record:
  assumes "normalize_event (event p) = ''started''" and "lookup_peer (peers s) (addr p) = None"
  shows "lookup_peer (peers (swarm_of (announce s p))) (addr p) =
           Some \<lparr>ip = params_ip p, port = params_port p, peerId = peer_id p, peer_complete = False\<rparr>
         \<and> complete (swarm_of (announce s p)) = complete s + (if left p = 0 then 1 else 0)
         \<and> incomplete (swarm_of (announce s p)) = incomplete s + (if left p = 0 then 0 else 1)"
  using assms
  by (simp add: announce_def handler_def onAnnounce_started_def mark_complete_def Let_def
      lookup_assign_same)

section \<open>The claims about the registry\<close>

text \<open>
  Claim C1: after every sequence of announces on one registry, the two counters add up to
  the number of entries that are not tombstoned, and each such entry is counted in the
  bucket its \<^verbatim>\<open>complete\<close> flag names. The sum is kept (\<open>Swarm_sum\<close>); the buckets are
  not. A first \<^verbatim>\<open>started\<close> with nothing left raises \<^verbatim>\<open>complete\<close> and stores a peer whose
  flag is unset, since the continuation of \<^verbatim>\<open>announce\<close> tests the \<^verbatim>\<open>peer\<close> it read before
  the handler created one; when that peer stops, \<^verbatim>\<open>incomplete\<close> is lowered instead and
  falls below zero. An \<^verbatim>\<open>update\<close> with nothing left sets the flag of a counted-incomplete
  peer and moves no count.
\<close>

theorem counters_disagree_with_flags:
  "announces Swarm [example_params ''A'' ''started'' 0] =
     \<lparr>peers = [(''A:6881'', Some (example_peer ''A'' False))], complete = 1, incomplete = 0\<rparr>
   \<and> \<not> counts_match_flags (announces Swarm [example_params ''A'' ''started'' 0])
   \<and> announces Swarm [example_params ''A'' ''started'' 0, example_params ''A'' ''stopped'' 0] =
     \<lparr>peers = [(''A:6881'', None)], complete = 1, incomplete = - 1\<rparr>
   \<and> announces Swarm [example_params ''A'' ''started'' 7, example_params ''A'' ''update'' 0] =
     \<lparr>peers = [(''A:6881'', Some (example_peer ''A'' True))], complete = 0, incomplete = 1\<rparr>"
  by (simp add: swarm_eval counts_match_flags_def)

text \<open>
  Claim C2: every announce with one of the four events invokes the callback exactly once
  with a response, also on the anomalous branches. On those branches the code does not:
  \<^verbatim>\<open>stopped\<close> for an address with no live record and a second \<^verbatim>\<open>completed\<close> return
  without calling the continuation, and the three branches that mean to re-dispatch
  (\<^verbatim>\<open>started\<close> for a live record, \<^verbatim>\<open>completed\<close> and \<^verbatim>\<open>update\<close> for none) throw. In all
  five the callback is never invoked.
\<close>

theorem anomalous_announce_never_calls_back:
  "announce Swarm (example_params ''A'' ''stopped'' 3) =
     \<lparr>swarm_of = Swarm, emits = [], cb_calls = [], thrown = None\<rparr>
   \<and> announce (announces Swarm [example_params ''A'' ''started'' 3, example_params ''A'' ''completed'' 0])
       (example_params ''A'' ''completed'' 0) =
     \<lparr>swarm_of = \<lparr>peers = [(''A:6881'', Some (example_peer ''A'' True))], complete = 1, incomplete = 0\<rparr>,
      emits = [], cb_calls = [], thrown = None\<rparr>
   \<and> announce (announces Swarm [example_params ''A'' ''started'' 3]) (example_params ''A'' ''started'' 3) =
     \<lparr>swarm_of = \<lparr>peers = [(''A:6881'', Some (example_peer ''A'' False))], complete = 0, incomplete = 1\<rparr>,
      emits = [], cb_calls = [], thrown = Some start_undefined\<rparr>
   \<and> announce Swarm (example_params ''A'' ''completed'' 0) =
     \<lparr>swarm_of = Swarm, emits = [], cb_calls = [], thrown = Some start_undefined\<rparr>
   \<and> announce Swarm (example_params ''A'' ''update'' 3) =
     \<lparr>swarm_of = Swarm, emits = [], cb_calls = [], thrown = Some start_undefined\<rparr>"
  by (simp add: swarm_eval)

text \<open>
  Claim C3: for an address that holds a live record, a second \<^verbatim>\<open>started\<close> ends in the same
  registry and gives the same response as an \<^verbatim>\<open>update\<close>. The code calls
  \<^verbatim>\<open>_onAnnounce_update()\<close> with no argument, which throws: the second \<^verbatim>\<open>started\<close> invokes
  no callback, emits nothing and leaves the record's flag unset, where the \<^verbatim>\<open>update\<close>
  emits, answers and (nothing being left) sets the flag. Neither creates a second record
  or raises a count.
\<close>

theorem repeated_started_is_not_update:
  "announces Swarm [example_params ''A'' ''started'' 0] =
     \<lparr>peers = [(''A:6881'', Some (example_peer ''A'' False))], complete = 1, incomplete = 0\<rparr>
   \<and> announce \<lparr>peers = [(''A:6881'', Some (example_peer ''A'' False))], complete = 1, incomplete = 0\<rparr>
       (example_params ''A'' ''started'' 0) =
     \<lparr>swarm_of = \<lparr>peers = [(''A:6881'', Some (example_peer ''A'' False))], complete = 1, incomplete = 0\<rparr>,
      emits = [], cb_calls = [], thrown = Some start_undefined\<rparr>
   \<and> announce \<lparr>peers = [(''A:6881'', Some (example_peer ''A'' False))], complete = 1, incomplete = 0\<rparr>
       (example_params ''A'' ''update'' 0) =
     \<lparr>swarm_of = \<lparr>peers = [(''A:6881'', Some (example_peer ''A'' True))], complete = 1, incomplete = 0\<rparr>,
      emits = [Emit ''update'' ''A:6881''],
      cb_calls = [CbResponse \<lparr>res_complete = 1, res_incomplete = 0,
                              res_peers = [entry_of (example_peer ''A'' True)]\<rparr>],
      thrown = None\<rparr>"
  by (simp add: swarm_eval)

text \<open>
  Claim C4: for an address with no live record, \<^verbatim>\<open>completed\<close> ends in the same state as
  \<^verbatim>\<open>started\<close> with nothing left. The code evaluates \<^verbatim>\<open>start()\<close>, which is not defined:
  \<^verbatim>\<open>completed\<close> throws and leaves the registry as it was, where \<^verbatim>\<open>started\<close> creates the
  record and raises \<^verbatim>\<open>complete\<close>.
\<close>

theorem completed_on_new_address_is_not_started:
  "announce Swarm (example_params ''A'' ''completed'' 0) =
     \<lparr>swarm_of = \<lparr>peers = [], complete = 0, incomplete = 0\<rparr>,
      emits = [], cb_calls = [], thrown = Some start_undefined\<rparr>
   \<and> announce Swarm (example_params ''A'' ''started'' 0) =
     \<lparr>swarm_of = \<lparr>peers = [(''A:6881'', Some (example_peer ''A'' False))], complete = 1, incomplete = 0\<rparr>,
      emits = [Emit ''start'' ''A:6881''],
      cb_calls = [CbResponse \<lparr>res_complete = 1, res_incomplete = 0,
                              res_peers = [entry_of (example_peer ''A'' False)]\<rparr>],
      thrown = None\<rparr>"
  by (simp add: swarm_eval)

text \<open>
  Claim C5: an announce whose event, after an absent or empty one has become
  \<^verbatim>\<open>update\<close>, is none of \<^verbatim>\<open>started\<close>, \<^verbatim>\<open>stopped\<close>, \<^verbatim>\<open>completed\<close>, \<^verbatim>\<open>update\<close> passes an
  \<^verbatim>\<open>invalid event\<close> error to the callback, once, and leaves the peer map and both counters
  as they were; nothing is emitted and nothing is thrown.
\<close>

theorem invalid_event_fails_without_change:
  assumes "normalize_event (event p) \<notin> {''started'', ''stopped'', ''completed'', ''update''}"
  shows "announce s p =
           \<lparr>swarm_of = s, emits = [], cb_calls = [CbError ''invalid event''], thrown = None\<rparr>"
  using assms by (simp add: announce_def handler_def)

theorem invalid_event_fails_without_change_witness:
  "normalize_event (event (example_params ''A'' ''paused'' 1))
     \<notin> {''started'', ''stopped'', ''completed'', ''update''}
   \<and> announce (announces Swarm [example_params ''B'' ''started'' 4]) (example_params ''A'' ''paused'' 1) =
     \<lparr>swarm_of = \<lparr>peers = [(''B:6881'', Some (example_peer ''B'' False))], complete = 0, incomplete = 1\<rparr>,
      emits = [], cb_calls = [CbError ''invalid event''], thrown = None\<rparr>"
proof -
  have e: "normalize_event (event (example_params ''A'' ''paused'' 1))
      \<notin> {''started'', ''stopped'', ''completed'', ''update''}"
    by (simp add: normalize_event_def example_params_def)
  have s: "announces Swarm [example_params ''B'' ''started'' 4] =
      \<lparr>peers = [(''B:6881'', Some (example_peer ''B'' False))], complete = 0, incomplete = 1\<rparr>"
    by (simp add: swarm_eval)
  show ?thesis
    using e s invalid_event_fails_without_change [OF e, of "announces Swarm [example_params ''B'' ''started'' 4]"]
    by simp
qed

text \<open>
  Claim C6: for every registry and every natural number \<open>n\<close>, \<^verbatim>\<open>_getPeers(n)\<close> returns at
  most \<open>n\<close> entries, none of them from a tombstoned slot, in the enumeration order of the
  peer map, which is the order of insertion (\<open>announce_keys\<close>): it returns the first \<open>n\<close>
  surviving peers, each as \<^verbatim>\<open>{'peer id': peerId, ip: ip, port: port}\<close> of its record, so the
  peer ids, the ips and the ports of the result are those of the first \<open>n\<close> slots that
  hold a record, in the order of the map. After \<open>A\<close>, \<open>B\<close> and \<open>C\<close> have started in
  this order and \<open>B\<close> has stopped, \<^verbatim>\<open>_getPeers(2)\<close> is the entry of \<open>A\<close> followed by the
  entry of \<open>C\<close>.
\<close>

theorem getPeers_first_survivors:
  "length (getPeers s (Some (int n))) \<le> n
   \<and> getPeers s (Some (int n)) =
       take n (map (\<lambda>r. \<lparr>entry_peer_id = peerId r, entry_ip = ip r, entry_port = port r\<rparr>)
                 (surviving (peers s)))
   \<and> map entry_peer_id (getPeers s (Some (int n))) = take n (map peerId (surviving (peers s)))
   \<and> map entry_ip (getPeers s (Some (int n))) = take n (map ip (surviving (peers s)))
   \<and> map entry_port (getPeers s (Some (int n))) = take n (map port (surviving (peers s)))
   \<and> surviving (peers s) = List.map_filter snd (peers s)
   \<and> getPeers (announces Swarm [example_params ''A'' ''started'' 5, example_params ''B'' ''started'' 5,
                  example_params ''C'' ''started'' 5, example_params ''B'' ''stopped'' 5]) (Some 2) =
       [\<lparr>entry_peer_id = ''-WW0001-A'', entry_ip = ''A'', entry_port = 6881\<rparr>,
        \<lparr>entry_peer_id = ''-WW0001-C'', entry_ip = ''C'', entry_port = 6881\<rparr>]"
proof -
  have a: "getPeers s (Some (int n)) = take n (map entry_of (surviving (peers s)))"
    by (simp add: getPeers_def getPeers_loop_capped)
  have b: "length (getPeers s (Some (int n))) \<le> n"
    by (simp add: a)
  have l: "getPeers s (Some (int n)) =
       take n (map (\<lambda>r. \<lparr>entry_peer_id = peerId r, entry_ip = ip r, entry_port = port r\<rparr>)
                 (surviving (peers s)))"
    using a by (simp only: entry_of_literal)
  have p1: "map entry_peer_id (getPeers s (Some (int n))) = take n (map peerId (surviving (peers s)))"
    by (simp add: a take_map entry_of_def)
  have p2: "map entry_ip (getPeers s (Some (int n))) = take n (map ip (surviving (peers s)))"
    by (simp add: a take_map entry_of_def)
  have p3: "map entry_port (getPeers s (Some (int n))) = take n (map port (surviving (peers s)))"
    by (simp add: a take_map entry_of_def)
  have m: "surviving (peers s) = List.map_filter snd (peers s)"
    by (rule surviving_map_filter)
  have c: "getPeers (announces Swarm [example_params ''A'' ''started'' 5, example_params ''B'' ''started'' 5,
                  example_params ''C'' ''started'' 5, example_params ''B'' ''stopped'' 5]) (Some 2) =
       [\<lparr>entry_peer_id = ''-WW0001-A'', entry_ip = ''A'', entry_port = 6881\<rparr>,
        \<lparr>entry_peer_id = ''-WW0001-C'', entry_ip = ''C'', entry_port = 6881\<rparr>]"
    by (simp add: swarm_eval)
  from b l p1 p2 p3 m c show ?thesis by blast
qed


text \<open>
  Claim C8: \<^verbatim>\<open>scrape\<close> does not look at its \<^verbatim>\<open>infoHash\<close> and \<^verbatim>\<open>params\<close> arguments: any two
  calls on one registry give the same result, the registry's two counters, and leave the
  registry as it is.
\<close>

theorem scrape_ignores_arguments:
  "scrape s infoHash1 params1 = scrape s infoHash2 params2
   \<and> scrape s infoHash1 params1 =
       (s, \<lparr>scrape_complete = complete s, scrape_incomplete = incomplete s\<rparr>)"
  by (simp add: scrape_def)

text \<open>
  Claim C10: with \<^verbatim>\<open>numwant\<close> undefined \<^verbatim>\<open>_getPeers\<close> applies no cap: the comparison of the
  collected length with the bound is never true, and the result is every surviving peer,
  in enumeration order: the entry \<^verbatim>\<open>{'peer id': peerId, ip: ip, port: port}\<close> of every slot
  that holds a record, so its peer ids, ips and ports are those of all these records in
  the order of the map. After \<open>A\<close>, \<open>B\<close>, \<open>C\<close> have started, \<open>A\<close> has stopped and \<open>D\<close>
  has started, the result is the entries of \<open>B\<close>, \<open>C\<close> and \<open>D\<close>.
\<close>

theorem getPeers_without_numwant:
  "getPeers s None =
     map (\<lambda>r. \<lparr>entry_peer_id = peerId r, entry_ip = ip r, entry_port = port r\<rparr>) (surviving (peers s))
   \<and> map entry_peer_id (getPeers s None) = map peerId (surviving (peers s))
   \<and> map entry_ip (getPeers s None) = map ip (surviving (peers s))
   \<and> map entry_port (getPeers s None) = map port (surviving (peers s))
   \<and> surviving (peers s) = List.map_filter snd (peers s)
   \<and> length_ge k None = False
   \<and> getPeers (announces Swarm [example_params ''A'' ''started'' 5, example_params ''B'' ''started'' 0,
                  example_params ''C'' ''started'' 5, example_params ''A'' ''stopped'' 5,
                  example_params ''D'' ''started'' 5]) None =
       [\<lparr>entry_peer_id = ''-WW0001-B'', entry_ip = ''B'', entry_port = 6881\<rparr>,
        \<lparr>entry_peer_id = ''-WW0001-C'', entry_ip = ''C'', entry_port = 6881\<rparr>,
        \<lparr>entry_peer_id = ''-WW0001-D'', entry_ip = ''D'', entry_port = 6881\<rparr>]"
proof -
  have a: "getPeers s None = map entry_of (surviving (peers s))"
    by (simp add: getPeers_def getPeers_loop_uncapped)
  have l: "getPeers s None =
     map (\<lambda>r. \<lparr>entry_peer_id = peerId r, entry_ip = ip r, entry_port = port r\<rparr>) (surviving (peers s))"
    using a by (simp only: entry_of_literal)
  have p1: "map entry_peer_id (getPeers s None) = map peerId (surviving (peers s))"
    by (simp add: a entry_of_def)
  have p2: "map entry_ip (getPeers s None) = map ip (surviving (peers s))"
    by (simp add: a entry_of_def)
  have p3: "map entry_port (getPeers s None) = map port (surviving (peers s))"
    by (simp add: a entry_of_def)
  have m: "surviving (peers s) = List.map_filter snd (peers s)"
    by (rule surviving_map_filter)
  have g: "length_ge k None = False"
    by (simp add: length_ge_def)
  have c: "getPeers (announces Swarm [example_params ''A'' ''started'' 5, example_params ''B'' ''started'' 0,
                  example_params ''C'' ''started'' 5, example_params ''A'' ''stopped'' 5,
                  example_params ''D'' ''started'' 5]) None =
       [\<lparr>entry_peer_id = ''-WW0001-B'', entry_ip = ''B'', entry_port = 6881\<rparr>,
        \<lparr>entry_peer_id = ''-WW0001-C'', entry_ip = ''C'', entry_port = 6881\<rparr>,
        \<lparr>entry_peer_id = ''-WW0001-D'', entry_ip = ''D'', entry_port = 6881\<rparr>]"
    by (simp add: swarm_eval)
  from l p1 p2 p3 m g c show ?thesis by blast
qed


section \<open>The claims about the tracker client\<close>

lemmas client_eval = onScrapeResponse_def scrape_mapping_def specified_scrape_events_def
  populated_def empty_files_scrape_def example_tracker_def example_stats_def
  example_info_hash_def binaryToHex_def hex_digit_def onAnnounceResponse_def
  example_announce_data_def example_multi_def truthy_def setInterval_def bracketed_def Let_def

text \<open>
  Claim C7, as stated: \<^verbatim>\<open>_onScrapeResponse\<close> uses \<^verbatim>\<open>files\<close> when present and \<^verbatim>\<open>host\<close>
  otherwise; it emits the one warning and no scrape event exactly when neither yields a
  non-empty mapping, and one scrape event per key otherwise. An empty \<^verbatim>\<open>files\<close> dictionary
  is truthy, so it is used although \<^verbatim>\<open>host\<close> has an entry: the warning is emitted where
  the claim has none.
\<close>

theorem empty_files_hide_host:
  "populated (host empty_files_scrape)
   \<and> onScrapeResponse example_tracker empty_files_scrape = [Warning ''invalid scrape response'']
   \<and> specified_scrape_events example_tracker empty_files_scrape = []
   \<and> onScrapeResponse example_tracker empty_files_scrape
       \<noteq> specified_scrape_events example_tracker empty_files_scrape"
  by (simp add: client_eval)

text \<open>
  Claim C7, amended: the mapping in use is \<^verbatim>\<open>files\<close> when that key is present, even when
  it is empty, otherwise \<^verbatim>\<open>host\<close> when present, otherwise empty. When the mapping in use
  is empty the handler emits exactly the one \<^verbatim>\<open>invalid scrape response\<close> warning and no
  scrape event; otherwise it emits no warning and exactly one scrape event per key, in
  order, carrying the announce URL, the hex-encoded info hash and the entry's
  \<^verbatim>\<open>complete\<close>, \<^verbatim>\<open>incomplete\<close> and \<^verbatim>\<open>downloaded\<close>.
\<close>

theorem scrape_response_events:
  "(case files d of
      Some f \<Rightarrow> scrape_mapping d = f
    | None \<Rightarrow> (case host d of Some h \<Rightarrow> scrape_mapping d = h | None \<Rightarrow> scrape_mapping d = []))
   \<and> (scrape_mapping d = [] \<longrightarrow> onScrapeResponse t d = [Warning ''invalid scrape response''])
   \<and> (scrape_mapping d \<noteq> [] \<longrightarrow>
        onScrapeResponse t d =
          map (\<lambda>(k, r). Scrape (announceUrl t) (binaryToHex k) (st_complete r) (st_incomplete r)
                 (st_downloaded r)) (scrape_mapping d))"
  by (simp add: onScrapeResponse_def scrape_mapping_def split: option.splits)

theorem scrape_response_events_witness:
  "scrape_mapping \<lparr>files = None, host = Some [(example_info_hash, example_stats)]\<rparr> \<noteq> []
   \<and> onScrapeResponse example_tracker \<lparr>files = None, host = Some [(example_info_hash, example_stats)]\<rparr> =
       [Scrape ''http://tracker.example/announce'' ''6161616161616161616161616161616161616161''
          (Some 3) (Some 5) (Some 10)]
   \<and> scrape_mapping \<lparr>files = None, host = None\<rparr> = []
   \<and> onScrapeResponse example_tracker \<lparr>files = None, host = None\<rparr> =
       [Warning ''invalid scrape response'']"
  using scrape_response_events [of "\<lparr>files = None, host = Some [(example_info_hash, example_stats)]\<rparr>" example_tracker]
    scrape_response_events [of "\<lparr>files = None, host = None\<rparr>" example_tracker]
  by (simp add: scrape_mapping_def example_tracker_def example_stats_def example_info_hash_def
      binaryToHex_def hex_digit_def)

text \<open>
  Claim C9: when decoding a compact \<^verbatim>\<open>peers\<close> field throws, \<^verbatim>\<open>_onAnnounceResponse\<close> emits
  the error as a warning and returns: after the \<^verbatim>\<open>update\<close> event, already emitted, comes
  that warning and nothing else, so no \<^verbatim>\<open>peer\<close> event is emitted, whatever \<^verbatim>\<open>peers6\<close>
  holds.
\<close>

theorem compact_peers_failure_ends_response:
  assumes "d_peers d = CompactPeers b" and "multi b = Inl err"
  shows "snd (onAnnounceResponse multi multi6 t d) =
           [Update (announceUrl t) (d_complete d) (d_incomplete d), Warning err]
         \<and> (\<forall>a. Peer a \<notin> set (snd (onAnnounceResponse multi multi6 t d)))"
  using assms by (simp add: onAnnounceResponse_def Let_def)

theorem compact_peers_failure_ends_response_witness:
  "d_peers example_announce_data = CompactPeers ''abcde''
   \<and> example_multi ''abcde'' = Inl ''invalid compact peers''
   \<and> snd (onAnnounceResponse example_multi example_multi example_tracker example_announce_data) =
       [Update ''http://tracker.example/announce'' (Some 1) (Some 2), Warning ''invalid compact peers'']
   \<and> snd (onAnnounceResponse example_multi example_multi example_tracker
            (example_announce_data\<lparr>d_peers := NoPeers\<rparr>)) =
       [Update ''http://tracker.example/announce'' (Some 1) (Some 2), Peer ''[::1]:6881'']"
proof -
  have p: "d_peers example_announce_data = CompactPeers ''abcde''"
    by (simp add: example_announce_data_def)
  have m: "example_multi ''abcde'' = Inl ''invalid compact peers''"
    by (simp add: example_multi_def)
  have u: "announceUrl example_tracker = ''http://tracker.example/announce''"
       "d_complete example_announce_data = Some 1" "d_incomplete example_announce_data = Some 2"
    by (simp_all add: example_tracker_def example_announce_data_def)
  have o: "snd (onAnnounceResponse example_multi example_multi example_tracker
            (example_announce_data\<lparr>d_peers := NoPeers\<rparr>)) =
       [Update ''http://tracker.example/announce'' (Some 1) (Some 2), Peer ''[::1]:6881'']"
    by (simp add: client_eval)
  show ?thesis
    using p m u o
      compact_peers_failure_ends_response [where d = example_announce_data and b = "''abcde''"
        and multi = example_multi and err = "''invalid compact peers''" and ?multi6.0 = example_multi
        and t = example_tracker]
    by simp
qed

end
